theory Spec2Isabelle
  imports Main "HOL-Library.Word" "HOL-Library.Product_Lexorder"
begin

section \<open>The tree scheduler of task/backend/scheduler/treescheduler.go\<close>

text \<open>
  The scheduler keeps two ordered containers (\<open>scheduled\<close>, \<open>running\<close>), a side
  map \<open>nextTime\<close>, the armed wake time \<open>when\<close> and a timer. Every method takes
  the mutex for its whole body, so a method is one state transformer. The dispatch
  loop and the per-run waiter are goroutines; one iteration of the loop
  (\<open>timerFired\<close>) and one completion of a waiter (\<open>waiter\<close>) are state
  transformers too, and the interleaving between them is not part of the model.

  A body that panics or blocks does not run to its end. Its model returns the state at
  the point where it stopped together with the way it stopped, so that what happened
  before that point (the calls made, the fields written) is still in the result.
\<close>

subsection \<open>Identifiers, instants and durations\<close>

text \<open>
  \<open>ID\<close> is declared in another file of the package. The specification calls it a 64-bit
  identifier with a total order; the code compares it with \<open><\<close> and uses \<open>0\<close> as its
  least value: it is an unsigned 64-bit integer here. \<open>item.next\<close> is an \<open>int64\<close> and
  \<open>item.nonce\<close> an \<open>int\<close>: both are 64-bit words compared as signed numbers. A
  \<open>time.Time\<close> is an instant, counted here in nanoseconds since the Unix epoch; a
  \<open>time.Duration\<close> is an \<open>int64\<close> of nanoseconds.
\<close>

type_synonym ID = "64 word"
type_synonym Time = int
type_synonym Duration = "64 word"
type_synonym error = string

definition Unix :: "Time \<Rightarrow> 64 word" where
  \<comment> \<open>\<open>t.Unix()\<close>: the whole seconds since the epoch, as an \<open>int64\<close>\<close>
  "Unix t = word_of_int (t div 1000000000)"

definition time_Unix :: "64 word \<Rightarrow> Time" where
  \<comment> \<open>\<open>time.Unix(sec, 0)\<close>\<close>
  "time_Unix sec = sint sec * 1000000000"

definition Add :: "Time \<Rightarrow> Duration \<Rightarrow> Time" where
  "Add t d = t + sint d"

definition Before :: "Time \<Rightarrow> Time \<Rightarrow> bool" where
  "Before t u = (t < u)"

definition zeroTime :: Time where
  \<comment> \<open>the zero value \<open>time.Time{}\<close>: 1 January of year 1, 00:00:00 UTC\<close>
  "zeroTime = - 62135596800 * 1000000000"

definition maxWaitTime :: Duration where
  \<comment> \<open>\<open>1000000 * time.Hour\<close>\<close>
  "maxWaitTime = 1000000 * 3600000000000"

subsection \<open>The cron library\<close>

text \<open>
  \<open>github.com/influxdata/cron\<close> is an imported library. The scheduler uses a parsed
  schedule only through \<open>cron.ParseUTC\<close> and \<open>Parsed.Next\<close>, both returning a value
  together with an error, so the library is a parameter of the model: a record of these
  two functions and of the zero value of \<open>cron.Parsed\<close> (the value of the \<open>cron\<close> field
  in a composite literal that leaves it out).
\<close>

record 'c cronlib =
  ParseUTC :: "string \<Rightarrow> 'c \<times> error option"
  Next :: "'c \<Rightarrow> Time \<Rightarrow> Time \<times> error option"
  Parsed0 :: 'c

subsection \<open>Items and their orders\<close>

text \<open>
  A \<open>Promise\<close> is the handle an executor returns (the interface is declared in another
  file of the package): \<open>ID()\<close> is its run id and \<open>Error()\<close> its error once \<open>Done()\<close> has
  fired. The \<open>cancel\<close> field of a running item is the method
  value \<open>prom.Cancel\<close>, named here by the promise it is bound to; \<open>None\<close> is the nil
  function of a composite literal that leaves the field out.
\<close>

record Promise =
  prom_ID :: ID
  prom_Error :: "error option"

record runningItem =
  cancel :: "Promise option"
  runID :: ID
  taskID :: ID

definition Less_runningItem :: "runningItem \<Rightarrow> runningItem \<Rightarrow> bool" where
  "Less_runningItem it it2 =
     (taskID it < taskID it2 \<or> (taskID it = taskID it2 \<and> runID it < runID it2))"

record 'c item =
  cron :: 'c
  next' :: "64 word"
  nonce :: "64 word"
  offset :: "64 word"
  id' :: ID

definition Less :: "'c item \<Rightarrow> 'c item \<Rightarrow> bool" where
  "Less it it2 =
     (next' it <s next' it2 \<or>
      (next' it = next' it2 \<and>
        (nonce it <s nonce it2 \<or> nonce it = nonce it2 \<and> id' it < id' it2)))"


subsection \<open>The ordered container\<close>

text \<open>The ways in which a body does not run to its end.\<close>

datatype stop =
  nil_dereference \<comment> \<open>panic: a nil pointer, nil interface value or nil function is used\<close>
| makeslice_out_of_range \<comment> \<open>panic: \<open>make\<close> with a negative capacity\<close>
| blocked_on_sema \<comment> \<open>the send on the full semaphore channel does not return\<close>

text \<open>
  Modelled from the spec: \<open>github.com/google/btree\<close> is an imported library, absent
  from the sources. The specification asks of the container "insert-or-replace by total
  order, delete by exact key, and extract-minimum", and a scan in ascending order from a
  pivot. A tree made by \<open>btree.New\<close> is \<open>Tree xs\<close>, with \<open>xs\<close> the ascending list of
  its items for the \<open>Less\<close> of the item type: two items neither of which is less than the
  other are the same key.
  \<^item> \<open>ReplaceOrInsert\<close> puts the item at its place, replacing the item of the same key;
  \<^item> \<open>Delete\<close> removes the item of the same key, if there is one;
  \<^item> \<open>DeleteMin\<close> removes and returns the first item, or returns nil (\<open>None\<close>);
  \<^item> \<open>AscendGreaterOrEqual\<close> calls the iterator on every item not less than the pivot,
    in ascending order, until the iterator returns false. The iterator may update a
    state (the variables its closure captures); the items visited are those of the
    container when the scan starts.

  A struct field of type \<open>btree.BTree\<close> that nothing builds is the zero value of the
  struct, \<open>Zero\<close>: it has no root node and no node allocator. \<open>ReplaceOrInsert\<close> on it
  asks the absent allocator for the root node, which dereferences a nil pointer and
  panics before the tree is changed; \<open>Delete\<close>, \<open>DeleteMin\<close> and the scan find no root
  node and return at once.
\<close>

datatype 'a BTree = Zero | Tree "'a list"

fun items :: "'a BTree \<Rightarrow> 'a list" where
  "items Zero = []"
| "items (Tree xs) = xs"

fun ins :: "('a \<Rightarrow> 'a \<Rightarrow> bool) \<Rightarrow> 'a \<Rightarrow> 'a list \<Rightarrow> 'a list" where
  "ins lt x [] = [x]"
| "ins lt x (y # ys) =
     (if lt x y then x # y # ys
      else if lt y x then y # ins lt x ys
      else x # ys)"

fun del :: "('a \<Rightarrow> 'a \<Rightarrow> bool) \<Rightarrow> 'a \<Rightarrow> 'a list \<Rightarrow> 'a list" where
  "del lt k [] = []"
| "del lt k (y # ys) =
     (if lt y k then y # del lt k ys
      else if lt k y then y # ys
      else ys)"

fun ReplaceOrInsert :: "('a \<Rightarrow> 'a \<Rightarrow> bool) \<Rightarrow> 'a \<Rightarrow> 'a BTree \<Rightarrow> stop + 'a BTree" where
  "ReplaceOrInsert lt x Zero = Inl nil_dereference"
| "ReplaceOrInsert lt x (Tree xs) = Inr (Tree (ins lt x xs))"

fun Delete :: "('a \<Rightarrow> 'a \<Rightarrow> bool) \<Rightarrow> 'a \<Rightarrow> 'a BTree \<Rightarrow> 'a BTree" where
  "Delete lt k Zero = Zero"
| "Delete lt k (Tree xs) = Tree (del lt k xs)"

fun DeleteMin :: "'a BTree \<Rightarrow> 'a option \<times> 'a BTree" where
  "DeleteMin Zero = (None, Zero)"
| "DeleteMin (Tree []) = (None, Tree [])"
| "DeleteMin (Tree (x # xs)) = (Some x, Tree xs)"

fun Ascend :: "('a \<Rightarrow> 's \<Rightarrow> bool \<times> 's) \<Rightarrow> 'a list \<Rightarrow> 's \<Rightarrow> 's" where
  "Ascend iter [] st = st"
| "Ascend iter (x # xs) st =
     (case iter x st of
        (True, st') \<Rightarrow> Ascend iter xs st'
      | (False, st') \<Rightarrow> st')"

definition AscendGreaterOrEqual ::
  "('a \<Rightarrow> 'a \<Rightarrow> bool) \<Rightarrow> 'a \<Rightarrow> ('a \<Rightarrow> 's \<Rightarrow> bool \<times> 's) \<Rightarrow> 'a BTree \<Rightarrow> 's \<Rightarrow> 's" where
  "AscendGreaterOrEqual lt pivot iter tree st =
     Ascend iter (dropWhile (\<lambda>x. lt x pivot) (items tree)) st"

subsection \<open>The scheduler\<close>

text \<open>
  The executor is a function of the task id and the scheduled instant that returns a
  promise (nil for fire-and-forget: \<open>None\<close>) together with an error. The error handler
  \<open>onErr\<close> is a function value of the caller, nil (\<open>None\<close>) when the caller installed a
  nil one; the scheduler ignores its result. The model records each call of the executor
  and of the handler, with its arguments, in \<open>events\<close>; calling a nil handler panics.
  \<open>cancel_call\<close> is the call of the function recorded in the \<open>cancel\<close> field of a
  running item. No statement of the file makes such a call, so no function of the model
  records one; the event is there to say which calls the specification asks for.

  \<open>time\<close> is the injected clock, an interface value: nil (\<open>None\<close>) unless the option
  \<open>WithTime\<close> stored \<open>stdTime{}\<close>, whose \<open>Unix\<close> is taken to be \<open>time.Unix\<close> (the type
  is declared in another file of the package). \<open>timer\<close> is the instant at which the
  timer is set to fire. \<open>sema\<close> counts the tokens in the semaphore channel, of capacity
  \<open>semaCap\<close>; \<open>wg\<close> is the counter of the wait group; \<open>waiters\<close> are the waiter
  goroutines spawned and not yet finished, each with the item and the promise it
  captured.
\<close>

datatype event =
  executor_call ID Time
| onErr_call ID ID Time error
| cancel_call "Promise option"

datatype TimeImpl = stdTime

type_synonym ExecutorFunc = "ID \<Rightarrow> Time \<Rightarrow> Promise option \<times> error option"
type_synonym ErrorFunc = "ID \<Rightarrow> ID \<Rightarrow> Time \<Rightarrow> error \<Rightarrow> bool"

record 'c TreeScheduler =
  scheduled :: "'c item BTree"
  running :: "runningItem BTree"
  nextTime :: "ID \<rightharpoonup> 64 word"
  when' :: Time
  executor :: ExecutorFunc
  onErr :: "ErrorFunc option"
  time :: "TimeImpl option"
  timer :: Time
  sema :: nat
  semaCap :: nat
  wg :: nat
  waiters :: "('c item \<times> Promise) list"
  events :: "event list"

definition defaultMaxRunsOutstanding :: nat where
  "defaultMaxRunsOutstanding = 2 ^ 16"

text \<open>
  The options of the constructor. \<open>WithOnErrorFn\<close> stores the function it is given,
  nil or not. \<open>WithTime\<close> ignores its argument and stores \<open>stdTime{}\<close>. The capacity of
  \<open>WithMaxRunsOutsanding\<close> is a natural number: \<open>make\<close> panics on a negative one.
\<close>

datatype treeSchedulerOptFunc =
  WithOnErrorFn "ErrorFunc option"
| WithMaxRunsOutsanding nat
| WithTime

fun apply_opt :: "treeSchedulerOptFunc \<Rightarrow> 'c TreeScheduler \<Rightarrow> 'c TreeScheduler" where
  "apply_opt (WithOnErrorFn fn) t = t\<lparr>onErr := fn\<rparr>"
| "apply_opt (WithMaxRunsOutsanding n) t = t\<lparr>semaCap := n\<rparr>"
| "apply_opt WithTime t = t\<lparr>time := Some stdTime\<rparr>"

text \<open>
  \<open>NewScheduler\<close>, with \<open>now\<close> the reading of \<open>time.Now()\<close>. \<open>construct\<close> is the
  scheduler it builds before it looks at \<open>Executor\<close>: the struct literal, the options,
  \<open>when\<close> and the timer. The struct literal names \<open>executor\<close>, \<open>onErr\<close> and \<open>sema\<close>
  only, and no statement of the file calls \<open>btree.New\<close>: the two trees are zero values,
  and so is \<open>nextTime\<close>, a nil map, which reads as empty. No statement of the file
  stores into \<open>nextTime\<close>. The struct literal has no timer yet; \<open>time.NewTimer\<close> sets
  it before anything reads it.
\<close>

definition construct :: "ExecutorFunc \<Rightarrow> treeSchedulerOptFunc list \<Rightarrow> Time \<Rightarrow> 'c TreeScheduler" where
  "construct ex opts now =
     (let s = fold apply_opt opts
                \<lparr>scheduled = Zero, running = Zero, nextTime = Map.empty, when' = zeroTime,
                 executor = ex, onErr = Some (\<lambda>_ _ _ _. True), time = None, timer = zeroTime,
                 sema = 0, semaCap = defaultMaxRunsOutstanding, wg = 0,
                 waiters = [], events = []\<rparr>
      in s\<lparr>when' := Add now maxWaitTime, timer := Add now maxWaitTime\<rparr>)"

definition NewScheduler ::
  "ExecutorFunc option \<Rightarrow> treeSchedulerOptFunc list \<Rightarrow> Time \<Rightarrow> error + 'c TreeScheduler" where
  "NewScheduler Executor opts now =
     (case Executor of
        None \<Rightarrow> Inl ''Executor must be a nnon-nil function''
      | Some ex \<Rightarrow> Inr (construct ex opts now))"

definition When :: "'c TreeScheduler \<Rightarrow> Time" where
  "When s = when' s"

subsection \<open>Release\<close>

definition clearTask :: "ID \<Rightarrow> runningItem \<Rightarrow> 'c TreeScheduler \<Rightarrow> bool \<times> 'c TreeScheduler" where
  "clearTask tid i s =
     (let del = (taskID i = tid)
      in if \<not> del then (False, s)
         else (True, s\<lparr>running :=
                 Delete Less_runningItem \<lparr>cancel = None, runID = 0, taskID = tid\<rparr> (running s)\<rparr>))"

definition Release :: "'c cronlib \<Rightarrow> ID \<Rightarrow> 'c TreeScheduler \<Rightarrow> 'c TreeScheduler \<times> error option" where
  "Release cr tid s =
     (case nextTime s tid of
        None \<Rightarrow> (s, None)
      | Some nt \<Rightarrow>
          (let s1 = s\<lparr>scheduled :=
                      Delete Less \<lparr>cron = Parsed0 cr, next' = nt, nonce = 0, offset = 0, id' = tid\<rparr>
                        (scheduled s)\<rparr>;
               s2 = AscendGreaterOrEqual Less_runningItem
                      \<lparr>cancel = None, runID = 0, taskID = tid\<rparr> (clearTask tid) (running s1) s1
           in (s2, None)))"

subsection \<open>Schedule\<close>

text \<open>
  \<open>Schedule\<close> returns the scheduler it leaves and either the error it returns (\<open>Inr\<close>,
  with \<open>None\<close> for nil) or the way it stopped (\<open>Inl\<close>): \<open>ReplaceOrInsert\<close> can panic.
\<close>

definition Schedule ::
  "'c cronlib \<Rightarrow> ID \<Rightarrow> string \<Rightarrow> Duration \<Rightarrow> Time \<Rightarrow> 'c TreeScheduler
     \<Rightarrow> 'c TreeScheduler \<times> (stop + error option)" where
  "Schedule cr tid cronString off since s =
     (case ParseUTC cr cronString of
        (crSch, Some err) \<Rightarrow> (s, Inr (Some err))
      | (crSch, None) \<Rightarrow>
          (case Next cr crSch since of
             (nt, Some err) \<Rightarrow> (s, Inr (Some err))
           | (nt, None) \<Rightarrow>
               (let it = \<lparr>cron = crSch, next' = Unix (Add nt off), nonce = 0, offset = 0, id' = tid\<rparr>
                in case nextTime s tid of
                     None \<Rightarrow>
                       (case ReplaceOrInsert Less it (scheduled s) of
                          Inl p \<Rightarrow> (s, Inl p)
                        | Inr tr \<Rightarrow> (s\<lparr>scheduled := tr\<rparr>, Inr None))
                   | Some nextTime' \<Rightarrow>
                       (let s1 = (if Before (when' s) nt then s\<lparr>when' := nt, timer := nt\<rparr> else s);
                            s2 = s1\<lparr>scheduled :=
                                   Delete Less
                                     \<lparr>cron = Parsed0 cr, next' = nextTime', nonce = 0, offset = 0, id' = tid\<rparr>
                                     (scheduled s1)\<rparr>
                        in case ReplaceOrInsert Less it (scheduled s2) of
                             Inl p \<Rightarrow> (s2, Inl p)
                           | Inr tr \<Rightarrow> (s2\<lparr>scheduled := tr\<rparr>, Inr None)))))"

subsection \<open>Runs\<close>










subsection \<open>The dispatch loop and the waiter\<close>

text \<open>
  \<open>spawn\<close> is the end of an iteration of the loop, from the reinsertion of the item on
  (\<open>s.scheduled.ReplaceOrInsert(it)\<close> to the \<open>go\<close> statement). With a nil promise the
  iteration ends after the reinsertion. The send on the semaphore blocks when the channel
  is full. The result is the scheduler at the end of the iteration, or at the point
  where it stopped, and the way it stopped (\<open>None\<close>: it ran to its end).
\<close>

definition spawn ::
  "'c item \<Rightarrow> Promise option \<Rightarrow> 'c TreeScheduler \<Rightarrow> 'c TreeScheduler \<times> stop option" where
  "spawn it prom s =
     (case ReplaceOrInsert Less it (scheduled s) of
        Inl p \<Rightarrow> (s, Some p)
      | Inr tr \<Rightarrow>
          (let s1 = s\<lparr>scheduled := tr\<rparr>
           in case prom of
                None \<Rightarrow> (s1, None)
              | Some p \<Rightarrow>
                  (case ReplaceOrInsert Less_runningItem
                          \<lparr>cancel = Some p, runID = prom_ID p, taskID = id' it\<rparr> (running s1) of
                     Inl e \<Rightarrow> (s1, Some e)
                   | Inr rn \<Rightarrow>
                       (let s2 = s1\<lparr>running := rn\<rparr>;
                            s3 = s2\<lparr>wg := Suc (wg s2)\<rparr>
                        in if sema s3 < semaCap s3
                           then (s3\<lparr>sema := Suc (sema s3), waiters := waiters s3 @ [(it, p)]\<rparr>, None)
                           else (s3, Some blocked_on_sema)))))"

text \<open>
  One iteration of the loop on \<open>case <-s.timer.C\<close>, with \<open>now\<close> the instant at which
  \<open>timer.Reset(maxWaitTime)\<close> runs. The calls \<open>s.time.Unix\<close> and \<open>prom.ID()\<close> are method
  calls on interface values and \<open>s.onErr\<close> is a function value: on a nil one they panic.
\<close>

definition timerFired ::
  "'c cronlib \<Rightarrow> Time \<Rightarrow> 'c TreeScheduler \<Rightarrow> 'c TreeScheduler \<times> stop option" where
  "timerFired cr now s =
     (case DeleteMin (scheduled s) of
        (None, tr) \<Rightarrow> (s\<lparr>scheduled := tr, timer := Add now maxWaitTime\<rparr>, None)
      | (Some it, tr) \<Rightarrow>
          (let s1 = s\<lparr>scheduled := tr,
                      events := events s @ [executor_call (id' it) (time_Unix (next' it))]\<rparr>
           in case executor s (id' it) (time_Unix (next' it)) of
                (prom, None) \<Rightarrow>
                  (case time s1 of
                     None \<Rightarrow> (s1, Some nil_dereference)
                   | Some stdTime \<Rightarrow>
                       (case Next cr (cron it) (time_Unix (next' it)) of
                          (t, None) \<Rightarrow> spawn (it\<lparr>next' := Unix t\<rparr>) prom s1
                        | (t, Some err) \<Rightarrow>
                            (let it1 = it\<lparr>next' := Unix t\<rparr>;
                                 it2 = it1\<lparr>nonce := nonce it1 + 1\<rparr>
                             in case prom of
                                  None \<Rightarrow> (s1, Some nil_dereference)
                                | Some p \<Rightarrow>
                                    (case onErr s1 of
                                       None \<Rightarrow> (s1, Some nil_dereference)
                                     | Some handler \<Rightarrow>
                                         spawn it2 prom
                                           (s1\<lparr>events := events s1 @
                                              [onErr_call (id' it2) (prom_ID p)
                                                 (time_Unix (next' it2)) err]\<rparr>)))))
              | (prom, Some err) \<Rightarrow>
                  (case onErr s1 of
                     None \<Rightarrow> (s1, Some nil_dereference)
                   | Some handler \<Rightarrow>
                       (s1\<lparr>events := events s1 @
                          [onErr_call (id' it) 0 (time_Unix (next' it)) err]\<rparr>, None))))"

text \<open>
  The waiter of a run, from the moment \<open>prom.Done()\<close> fires. \<open>deferred\<close> is its deferred
  function (\<open>s.wg.Done()\<close>, \<open><-s.sema\<close>), which runs on every way out, a panic included.
\<close>

definition deferred :: "'c item \<Rightarrow> Promise \<Rightarrow> 'c TreeScheduler \<Rightarrow> 'c TreeScheduler" where
  "deferred it prom s =
     s\<lparr>wg := wg s - 1, sema := sema s - 1, waiters := remove1 (it, prom) (waiters s)\<rparr>"

definition waiter ::
  "'c item \<Rightarrow> Promise \<Rightarrow> 'c TreeScheduler \<Rightarrow> 'c TreeScheduler \<times> stop option" where
  "waiter it prom s =
     (case prom_Error prom of
        Some err \<Rightarrow>
          (case onErr s of
             None \<Rightarrow> (deferred it prom s, Some nil_dereference)
           | Some handler \<Rightarrow>
               (deferred it prom
                  (s\<lparr>events := events s @
                      [onErr_call (id' it) (prom_ID prom) (time_Unix (next' it)) err]\<rparr>), None))
      | None \<Rightarrow>
          (deferred it prom
             (s\<lparr>running :=
                 Delete Less_runningItem
                   \<lparr>cancel = Some prom, runID = prom_ID prom, taskID = id' it\<rparr> (running s)\<rparr>),
           None))"

subsection \<open>A cron library to run the scheduler on\<close>

text \<open>
  Modelled from the spec: the cron library is absent from the sources. To evaluate the
  scheduler on concrete inputs, \<open>everyMinute\<close> is a library that parses the one
  expression \<open>* * * * *\<close> and rejects every other string. Its \<open>Next\<close> follows the
  specification: "\<open>Next(t)\<close> returns the least instant strictly greater than \<open>t\<close> that
  satisfies the expression, or an error if no such instant exists before the year-2100
  horizon"; with the error it returns the zero \<open>time.Time\<close> (1 January of year 1).
\<close>

definition horizon :: Time where
  \<comment> \<open>2100-01-01T00:00:00Z\<close>
  "horizon = 4102444800 * 1000000000"

definition everyMinute :: "unit cronlib" where
  "everyMinute =
     \<lparr>ParseUTC = (\<lambda>str. if str = ''* * * * *'' then ((), None)
                        else ((), Some ''cron: cannot parse'')),
      Next = (\<lambda>c t. let n = (t div 60000000000 + 1) * 60000000000
                     in if n < horizon then (n, None)
                        else (zeroTime, Some ''cron: no next time before 2100'')),
      Parsed0 = ()\<rparr>"

subsection \<open>Schedulers to run the scheduler on\<close>

text \<open>
  \<open>fire_and_forget\<close> is an executor that starts nothing and returns a nil promise with
  no error. \<open>started ex\<close> is the scheduler \<open>NewScheduler\<close> returns at instant 0 for the
  executor \<open>ex\<close> and the option \<open>WithTime\<close>.
\<close>

definition fire_and_forget :: ExecutorFunc where
  "fire_and_forget i t = (None, None)"

definition started :: "ExecutorFunc \<Rightarrow> unit TreeScheduler" where
  "started ex = construct ex [WithTime] 0"


subsection \<open>The states a scheduler goes through\<close>

text \<open>
  A scheduler starts as \<open>NewScheduler\<close> builds it and changes by calls of \<open>Schedule\<close>
  and \<open>Release\<close>, by iterations of the dispatch loop that run to their end, and by
  waiters that finish. A call of \<open>Schedule\<close> that panics leaves the scheduler it stopped
  on to a caller that recovers.
\<close>

inductive reachable :: "'c cronlib \<Rightarrow> 'c TreeScheduler \<Rightarrow> bool" for cr :: "'c cronlib" where
  reachable_new: "reachable cr (construct ex opts now)"
| reachable_Schedule: "reachable cr s \<Longrightarrow> reachable cr (fst (Schedule cr tid str off since s))"
| reachable_Release: "reachable cr s \<Longrightarrow> reachable cr (fst (Release cr tid s))"
| reachable_timerFired: "reachable cr s \<Longrightarrow> timerFired cr now s = (s', None) \<Longrightarrow> reachable cr s'"
| reachable_waiter:
    "reachable cr s \<Longrightarrow> (it, p) \<in> set (waiters s) \<Longrightarrow> reachable cr (fst (waiter it p s))"

subsection \<open>What the specification asks of a state\<close>





section \<open>Properties\<close>

subsection \<open>Running the scheduler on concrete inputs\<close>


lemma NewScheduler_started: "NewScheduler (Some ex) [WithTime] 0 = Inr (started ex)"
  by (simp add: NewScheduler_def started_def)


subsection \<open>The trees are never built and the side map is never written\<close>

text \<open>
  \<open>NewScheduler\<close> leaves the two trees as zero values and the side map empty, and no
  operation changes that: \<open>Schedule\<close> stops in \<open>ReplaceOrInsert\<close> or returns an error
  before it, \<open>Release\<close> returns at its first test, and the dispatch loop finds nothing
  to extract and resets the timer. So in every state a scheduler goes through both
  trees hold nothing, the side map has no key and no waiter runs.
\<close>

lemma fold_apply_opt_fields:
  "scheduled (fold apply_opt opts s) = scheduled s
   \<and> running (fold apply_opt opts s) = running s
   \<and> nextTime (fold apply_opt opts s) = nextTime s
   \<and> waiters (fold apply_opt opts s) = waiters s
   \<and> events (fold apply_opt opts s) = events s"
proof (induction opts arbitrary: s)
  case Nil
  show ?case by simp
next
  case (Cons o' os)
  show ?case by (cases o') (simp_all add: Cons.IH)
qed

lemma construct_fields:
  "scheduled (construct ex opts now) = Zero
   \<and> running (construct ex opts now) = Zero
   \<and> nextTime (construct ex opts now) = Map.empty
   \<and> waiters (construct ex opts now) = []"
  by (simp add: construct_def Let_def fold_apply_opt_fields)

lemma Schedule_never_built:
  assumes "scheduled s = Zero" and "nextTime s = Map.empty"
  shows "fst (Schedule cr tid str off since s) = s"
  using assms by (simp add: Schedule_def Let_def split: prod.splits option.splits)

lemma Schedule_never_built_outcome:
  assumes "scheduled s = Zero" and "nextTime s = Map.empty"
  shows "snd (Schedule cr tid str off since s) \<noteq> Inr None"
  using assms by (simp add: Schedule_def Let_def split: prod.splits option.splits)

lemma Release_never_written: "nextTime s = Map.empty \<Longrightarrow> Release cr tid s = (s, None)"
  by (simp add: Release_def)

lemma timerFired_never_built:
  "scheduled s = Zero \<Longrightarrow> timerFired cr now s = (s\<lparr>timer := Add now maxWaitTime\<rparr>, None)"
  by (simp add: timerFired_def)

lemma reachable_never_built:
  "reachable cr s \<Longrightarrow>
     scheduled s = Zero \<and> running s = Zero \<and> nextTime s = Map.empty \<and> waiters s = []"
proof (induction rule: reachable.induct)
  case (reachable_new ex opts now)
  show ?case by (rule construct_fields)
next
  case (reachable_Schedule s tid str off since)
  then show ?case by (simp add: Schedule_never_built)
next
  case (reachable_Release s tid)
  then show ?case by (simp add: Release_never_written)
next
  case (reachable_timerFired s now s')
  then show ?case by (auto simp: timerFired_never_built)
next
  case (reachable_waiter s it p)
  then show ?case by simp
qed

lemma reachable_timerFired_runs_to_end:
  "reachable cr s \<Longrightarrow>
     timerFired cr now s = (s\<lparr>timer := Add now maxWaitTime\<rparr>, None)"
  by (simp add: reachable_never_built timerFired_never_built)

lemma reachable_Schedule_never_returns_nil:
  "reachable cr s \<Longrightarrow> snd (Schedule cr tid str off since s) \<noteq> Inr None"
  by (simp add: reachable_never_built Schedule_never_built_outcome)

subsection \<open>What the operations do on any scheduler\<close>

text \<open>
  The lemmas of this subsection hold for every value of the scheduler record, also for
  those no run of the file produces (trees built by \<open>btree.New\<close>, entries in them, keys
  in the side map). They say what the text of each operation does with such a value.
  No operation writes the side map, and \<open>Release\<close> makes no call.
\<close>

lemma Schedule_nextTime: "nextTime (fst (Schedule cr tid str off since s)) = nextTime s"
  by (simp add: Schedule_def Let_def split: prod.splits option.splits sum.splits)

lemma Ascend_clearTask_fields:
  "nextTime (Ascend (clearTask tid) xs s) = nextTime s
   \<and> events (Ascend (clearTask tid) xs s) = events s"
  by (induction xs arbitrary: s) (simp_all add: clearTask_def)

lemma Release_nextTime_events:
  "nextTime (fst (Release cr tid s)) = nextTime s \<and> events (fst (Release cr tid s)) = events s"
  by (simp add: Release_def Let_def AscendGreaterOrEqual_def Ascend_clearTask_fields
      split: option.splits)

lemma spawn_nextTime: "nextTime (fst (spawn it prom s)) = nextTime s"
  by (simp add: spawn_def Let_def split: sum.splits option.splits)

lemma timerFired_nextTime: "nextTime (fst (timerFired cr now s)) = nextTime s"
  by (simp add: timerFired_def Let_def spawn_nextTime
      split: prod.splits option.splits TimeImpl.splits)

lemma waiter_nextTime: "nextTime (fst (waiter it p s)) = nextTime s"
  by (simp add: waiter_def deferred_def split: option.splits)

text \<open>
  For a task with no key in the side map \<open>Schedule\<close> leaves the wake time and the timer
  alone; for a task with a key it moves the wake time to the new instant exactly when the
  armed wake time is before it.
\<close>

lemma Schedule_new_task_when:
  "nextTime s tid = None \<Longrightarrow>
     When (fst (Schedule cr tid str off since s)) = When s
     \<and> timer (fst (Schedule cr tid str off since s)) = timer s"
  by (simp add: Schedule_def Let_def When_def split: prod.splits option.splits sum.splits)

lemma Schedule_known_task_when:
  assumes "ParseUTC cr str = (c, None)" and "Next cr c since = (nt, None)"
    and "nextTime s tid = Some old"
  shows "When (fst (Schedule cr tid str off since s)) = (if When s < nt then nt else When s)"
  using assms by (simp add: Schedule_def Let_def When_def Before_def split: sum.splits)


text \<open>
  A waiter whose promise ends with an error calls the handler and leaves the running tree
  as it was; one whose promise ends without an error deletes the entry of its run.
\<close>

lemma waiter_error:
  "prom_Error prom = Some err \<Longrightarrow> onErr s = Some handler \<Longrightarrow>
     snd (waiter it prom s) = None
     \<and> running (fst (waiter it prom s)) = running s
     \<and> events (fst (waiter it prom s))
         = events s @ [onErr_call (id' it) (prom_ID prom) (time_Unix (next' it)) err]"
  by (simp add: waiter_def deferred_def)

lemma waiter_success:
  "prom_Error prom = None \<Longrightarrow>
     snd (waiter it prom s) = None
     \<and> running (fst (waiter it prom s))
       = Delete Less_runningItem \<lparr>cancel = Some prom, runID = prom_ID prom, taskID = id' it\<rparr>
           (running s)
     \<and> events (fst (waiter it prom s)) = events s"
  by (simp add: waiter_def deferred_def)

text \<open>
  An iteration of the dispatch loop that extracts an entry and whose executor returns an
  error calls the handler with run id 0 and does not reinsert the entry; with a nil
  handler it panics. An iteration that extracts an entry, gets a nil promise with no
  error from the executor and whose cron advance fails panics: on the nil clock if no
  clock was set, on the nil promise otherwise.
\<close>

lemma timerFired_sync_failure:
  assumes "DeleteMin (scheduled s) = (Some it, tr)"
    and "executor s (id' it) (time_Unix (next' it)) = (prom, Some err)"
    and "onErr s = Some handler"
  shows "timerFired cr now s
     = (s\<lparr>scheduled := tr,
           events := events s @ [executor_call (id' it) (time_Unix (next' it)),
                                 onErr_call (id' it) 0 (time_Unix (next' it)) err]\<rparr>, None)"
  using assms by (simp add: timerFired_def)

lemma timerFired_nil_handler:
  assumes "DeleteMin (scheduled s) = (Some it, tr)"
    and "executor s (id' it) (time_Unix (next' it)) = (prom, Some err)"
    and "onErr s = None"
  shows "snd (timerFired cr now s) = Some nil_dereference"
  using assms by (simp add: timerFired_def)

lemma timerFired_nil_promise_cron_error:
  assumes "DeleteMin (scheduled s) = (Some it, tr)"
    and "executor s (id' it) (time_Unix (next' it)) = (None, None)"
    and "snd (Next cr (cron it) (time_Unix (next' it))) = Some err"
  shows "snd (timerFired cr now s) = Some nil_dereference"
  using assms
  by (cases "Next cr (cron it) (time_Unix (next' it))")
     (simp add: timerFired_def Let_def split: option.splits TimeImpl.splits)

subsection \<open>The ordered container keeps its order\<close>












subsection \<open>The order of the scheduled tree\<close>




subsection \<open>A malformed cron expression\<close>

text \<open>
  C9. When \<open>cron.ParseUTC\<close> returns an error for the expression, \<open>Schedule\<close> returns that
  error and the scheduler it leaves is the scheduler it was given: the task is not
  registered, and the scheduled tree, the side map, the armed wake time, the running
  tree and every other field are unchanged.
\<close>

theorem Schedule_InvalidCron_unchanged:
  "snd (ParseUTC cr cronString) = Some err
     \<Longrightarrow> Schedule cr tid cronString off since s = (s, Inr (Some err))"
  by (cases "ParseUTC cr cronString") (simp add: Schedule_def)

theorem Schedule_InvalidCron_unchanged_witness:
  "snd (ParseUTC everyMinute ''not a cron'') = Some ''cron: cannot parse''
   \<and> Schedule everyMinute 1 ''not a cron'' 0 0 (started fire_and_forget)
       = (started fire_and_forget, Inr (Some ''cron: cannot parse''))"
  using Schedule_InvalidCron_unchanged
    [of everyMinute "''not a cron''" "''cron: cannot parse''" 1 0 0 "started fire_and_forget"]
  by (simp add: everyMinute_def)

subsection \<open>Schedule, then Release\<close>



subsection \<open>The scheduled tree and the side map\<close>



subsection \<open>Release and the running runs\<close>



subsection \<open>Runs\<close>



subsection \<open>Schedule and the armed wake time\<close>


end
